theory Spec2Isabelle
  imports Complex_Main
begin

section \<open>Receipt API (src/app/main.py): data model\<close>

subsection \<open>Python strings\<close>

text \<open>
  A Python \<open>str\<close> is a sequence of Unicode code points, and slicing (\<open>s[:50]\<close>) and
  \<open>startswith\<close> count code points. The source's literals are Korean, so a string is
  modelled as the list of its code points; ASCII literals are written through \<open>ascii\<close>.
\<close>

type_synonym str = "nat list"

definition ascii :: "string \<Rightarrow> str" where
  "ascii s = map of_char s"

definition startswith :: "str \<Rightarrow> str \<Rightarrow> bool" where
  "startswith s p = (take (length p) s = p)"

text \<open>Decimal digits of a natural number, as \<open>str(n)\<close> gives them.\<close>

fun digits :: "nat \<Rightarrow> str" where
  "digits n = (if n < 10 then [48 + n] else digits (n div 10) @ [48 + n mod 10])"

declare digits.simps [simp del]

text \<open>\<open>zfill\<close> pads on the left with the digit zero; \<open>fmt0 w n\<close> is \<open>"%0wd" % n\<close>.\<close>

definition zfill :: "nat \<Rightarrow> str \<Rightarrow> str" where
  "zfill w s = replicate (w - length s) 48 @ s"

definition fmt0 :: "nat \<Rightarrow> nat \<Rightarrow> str" where
  "fmt0 w n = zfill w (digits n)"

subsection \<open>Dates and times\<close>

record pydate =
  year :: nat
  month :: nat
  day :: nat

record datetime = pydate +
  hour :: nat
  minute :: nat
  second :: nat
  microsecond :: nat

definition is_leap :: "nat \<Rightarrow> bool" where
  "is_leap y = (y mod 4 = 0 \<and> (y mod 100 \<noteq> 0 \<or> y mod 400 = 0))"

definition days_in_month :: "nat \<Rightarrow> nat \<Rightarrow> nat" where
  "days_in_month y m =
     (if m = 2 then (if is_leap y then 29 else 28)
      else if m = 4 \<or> m = 6 \<or> m = 9 \<or> m = 11 then 30 else 31)"

text \<open>The values a Python \<open>datetime\<close> object can hold (MINYEAR = 1, MAXYEAR = 9999).\<close>

definition valid_datetime :: "datetime \<Rightarrow> bool" where
  "valid_datetime t =
     (1 \<le> year t \<and> year t \<le> 9999 \<and> 1 \<le> month t \<and> month t \<le> 12 \<and>
      1 \<le> day t \<and> day t \<le> days_in_month (year t) (month t) \<and>
      hour t < 24 \<and> minute t < 60 \<and> second t < 60 \<and> microsecond t < 1000000)"

text \<open>\<open>datetime.date()\<close>.\<close>

definition date_of :: "datetime \<Rightarrow> pydate" where
  "date_of t = \<lparr>year = year t, month = month t, day = day t\<rparr>"

text \<open>\<open>strftime("%Y%m%d-%H%M%S")\<close>: four-digit year, two digits for every other field.\<close>

definition strftime_compact :: "datetime \<Rightarrow> str" where
  "strftime_compact t =
     fmt0 4 (year t) @ fmt0 2 (month t) @ fmt0 2 (day t) @ ascii ''-'' @
     fmt0 2 (hour t) @ fmt0 2 (minute t) @ fmt0 2 (second t)"

text \<open>\<open>date.isoformat()\<close>, which is also what \<open>strftime("%Y-%m-%d")\<close> prints.\<close>

definition date_isoformat :: "pydate \<Rightarrow> str" where
  "date_isoformat d =
     fmt0 4 (year d) @ ascii ''-'' @ fmt0 2 (month d) @ ascii ''-'' @ fmt0 2 (day d)"

definition strftime_ymd :: "datetime \<Rightarrow> str" where
  "strftime_ymd t = date_isoformat (date_of t)"

text \<open>\<open>datetime.isoformat()\<close> of a naive datetime: the fraction is left out when it is zero.\<close>

definition datetime_isoformat :: "datetime \<Rightarrow> str" where
  "datetime_isoformat t =
     date_isoformat (date_of t) @ ascii ''T'' @
     fmt0 2 (hour t) @ ascii '':'' @ fmt0 2 (minute t) @ ascii '':'' @ fmt0 2 (second t) @
     (if microsecond t = 0 then [] else ascii ''.'' @ fmt0 6 (microsecond t))"

subsection \<open>Exceptions, JSON values, request and response models\<close>

text \<open>
  Every exception of the model is a subclass of Python's \<open>Exception\<close>.
  \<open>HTTPException status detail\<close> is FastAPI's; \<open>AttributeError\<close> is what an attribute
  access on \<open>None\<close> raises; \<open>DBException msg\<close> stands for whatever the database driver
  raises, \<open>msg\<close> being \<open>str(e)\<close>.
\<close>

datatype pyexc =
    HTTPException nat str
  | AttributeError str
  | DBException str

text \<open>\<open>str(e)\<close>.\<close>

fun str_of_exc :: "pyexc \<Rightarrow> str" where
  "str_of_exc (HTTPException c d) = d"
| "str_of_exc (AttributeError m) = m"
| "str_of_exc (DBException m) = m"

text \<open>The dictionaries that the endpoints return, and the JSON a response model dumps to.\<close>

datatype json =
    JStr str
  | JInt int
  | JFloat real
  | JList "json list"
  | JObj "(str \<times> json) list"

fun dict_get :: "json \<Rightarrow> str \<Rightarrow> json option" where
  "dict_get (JObj kvs) k = map_of kvs k"
| "dict_get _ k = None"

text \<open>
  The uploaded file as the handler sees it. \<open>content_type\<close> is the Content-Type header
  of the multipart part; the framework gives \<open>None\<close> when the part carries none.
\<close>

record UploadFile =
  filename :: "str option"
  content_type :: "str option"
  content :: "nat list"

record HealthResponse =
  status :: str
  timestamp :: str
  database :: str
  version :: str

record ReceiptResponse =
  receipt_id :: str
  merchant_name :: str
  total_amount :: real
  date :: str
  status :: str
  message :: str

text \<open>The JSON object a \<open>ReceiptResponse\<close> is serialised to: its six declared fields.\<close>

definition ReceiptResponse_json :: "ReceiptResponse \<Rightarrow> json" where
  "ReceiptResponse_json r = JObj
     [(ascii ''receipt_id'', JStr (receipt_id r)),
      (ascii ''merchant_name'', JStr (merchant_name r)),
      (ascii ''total_amount'', JFloat (total_amount r)),
      (ascii ''date'', JStr (date r)),
      (ascii ''status'', JStr (ReceiptResponse.status r)),
      (ascii ''message'', JStr (message r))]"

subsection \<open>The database\<close>

text \<open>
  The two tables the handlers write and read. A table is the list of its rows in insertion
  order; a \<open>SELECT\<close> without \<open>ORDER BY\<close> returns the matching rows in that order.
\<close>

record receipts_row =
  col_receipt_id :: str
  col_merchant_name :: str
  col_total_amount :: real
  col_receipt_date :: pydate
  col_image_url :: str
  col_status :: str

record receipt_items_row =
  item_receipt_id :: str
  item_name :: str
  item_quantity :: int
  item_price :: real

record tables =
  receipts :: "receipts_row list"
  receipt_items :: "receipt_items_row list"

text \<open>
  The database server: its tables, and the outcome planned for each coming operation of a
  connection (\<open>Some msg\<close>: the operation raises an exception with that message;
  \<open>None\<close>, or no entry left: no fault). Every statement runs outside a transaction
  block, so a statement that returns has committed.
\<close>

record db_server =
  db :: tables
  faults :: "str option list"

datatype pool = Pool

definition db_op :: "db_server \<Rightarrow> (tables \<Rightarrow> pyexc + ('a \<times> tables)) \<Rightarrow> (pyexc + 'a) \<times> db_server" where
  "db_op s f =
     (case faults s of
        Some msg # fs \<Rightarrow> (Inl (DBException msg), s\<lparr>faults := fs\<rparr>)
      | _ \<Rightarrow>
         (case f (db s) of
            Inl e \<Rightarrow> (Inl e, s\<lparr>faults := tl (faults s)\<rparr>)
          | Inr (a, d) \<Rightarrow> (Inr a, s\<lparr>db := d, faults := tl (faults s)\<rparr>)))"

text \<open>\<open>db_pool.acquire()\<close>.\<close>

definition acquire :: "db_server \<Rightarrow> (pyexc + unit) \<times> db_server" where
  "acquire s = db_op s (\<lambda>d. Inr ((), d))"

text \<open>\<open>conn.fetchval("SELECT 1")\<close>.\<close>

definition fetchval_select_1 :: "db_server \<Rightarrow> (pyexc + int) \<times> db_server" where
  "fetchval_select_1 s = db_op s (\<lambda>d. Inr (1, d))"

definition has_receipt :: "tables \<Rightarrow> str \<Rightarrow> bool" where
  "has_receipt d rid = (rid \<in> set (map col_receipt_id (receipts d)))"

definition unique_violation :: str where
  "unique_violation = ascii ''duplicate key value violates unique constraint''"

definition foreign_key_violation :: str where
  "foreign_key_violation = ascii ''insert or update on table violates foreign key constraint''"

text \<open>
  Modelled from the spec: the table declarations are not part of the source. The spec gives
  the receipt identifier as the identity of a receipt (globally unique) and a line item as
  belonging to a receipt that exists (a foreign key), so an insert that would break either
  is refused by the database.
\<close>

definition insert_receipt :: "receipts_row \<Rightarrow> db_server \<Rightarrow> (pyexc + unit) \<times> db_server" where
  "insert_receipt row s = db_op s (\<lambda>d.
     if has_receipt d (col_receipt_id row) then Inl (DBException unique_violation)
     else Inr ((), d\<lparr>receipts := receipts d @ [row]\<rparr>))"

definition insert_receipt_item :: "receipt_items_row \<Rightarrow> db_server \<Rightarrow> (pyexc + unit) \<times> db_server" where
  "insert_receipt_item row s = db_op s (\<lambda>d.
     if \<not> has_receipt d (item_receipt_id row) then Inl (DBException foreign_key_violation)
     else Inr ((), d\<lparr>receipt_items := receipt_items d @ [row]\<rparr>))"

text \<open>\<open>SELECT ... FROM receipts WHERE receipt_id = $1\<close> through \<open>fetchrow\<close>: the first match.\<close>

definition fetchrow_receipt :: "str \<Rightarrow> db_server \<Rightarrow> (pyexc + receipts_row option) \<times> db_server" where
  "fetchrow_receipt rid s = db_op s (\<lambda>d.
     Inr (find (\<lambda>r. col_receipt_id r = rid) (receipts d), d))"

text \<open>\<open>SELECT ... FROM receipt_items WHERE receipt_id = $1\<close> through \<open>fetch\<close>.\<close>

definition fetch_items :: "str \<Rightarrow> db_server \<Rightarrow> (pyexc + receipt_items_row list) \<times> db_server" where
  "fetch_items rid s = db_op s (\<lambda>d.
     Inr (filter (\<lambda>i. item_receipt_id i = rid) (receipt_items d), d))"

section \<open>The endpoints\<close>

subsection \<open>GET /health\<close>

text \<open>The body of the \<open>try\<close> of \<open>health_check\<close>: acquire a connection, run \<open>SELECT 1\<close>.\<close>

definition ping :: "db_server \<Rightarrow> (pyexc + int) \<times> db_server" where
  "ping s =
     (case acquire s of
        (Inl e, s1) \<Rightarrow> (Inl e, s1)
      | (Inr u, s1) \<Rightarrow> fetchval_select_1 s1)"

definition health_check :: "pool option \<Rightarrow> datetime \<Rightarrow> db_server \<Rightarrow> HealthResponse \<times> db_server" where
  "health_check db_pool now s =
     (let (db_status, s') =
        (case db_pool of
           None \<Rightarrow> (ascii ''not configured'', s)
         | Some p \<Rightarrow>
            (case ping s of
               (Inr v, s1) \<Rightarrow> (ascii ''connected'', s1)
             | (Inl e, s1) \<Rightarrow> (ascii ''error: '' @ take 50 (str_of_exc e), s1)))
      in (\<lparr>HealthResponse.status =
              (if db_status = ascii ''connected'' then ascii ''healthy'' else ascii ''degraded''),
           timestamp = datetime_isoformat now,
           database = db_status,
           version = ascii ''1.0.0''\<rparr>, s'))"

subsection \<open>POST /api/receipts\<close>

text \<open>The string literals of the handler, as code points.\<close>

definition detail_images_only :: str where
  "detail_images_only =
     [51060, 48120, 51648, 32, 54028, 51068, 47564, 32, 50629, 47196, 46300, 32,
      44032, 45733, 54633, 45768, 45796]"

definition dummy_merchant_name :: str where
  "dummy_merchant_name = [49828, 53440, 48261, 49828, 32, 44053, 45224, 51216]"

definition americano :: str where
  "americano = [50500, 47700, 47532, 52852, 45432]"

definition sandwich :: str where
  "sandwich = [49356, 46300, 50948, 52824]"

definition message_saved :: str where
  "message_saved =
     [50689, 49688, 51613, 51060, 32, 49457, 44277, 51201, 51004, 47196, 32, 48516, 49437,
      46104, 44256, 32, 51200, 51109, 46104, 50632, 49845, 45768, 45796]"

definition message_save_failed :: str where
  "message_save_failed =
     [50689, 49688, 51613, 51060, 32, 48516, 49437, 46104, 50632, 51004, 45208, 32, 51200,
      51109, 32, 49892, 54056, 32, 40, 68, 66, 32, 50724, 47448, 41]"

definition message_dummy_mode :: str where
  "message_dummy_mode =
     [50689, 49688, 51613, 51060, 32, 48516, 49437, 46104, 50632, 49845, 45768, 45796, 32,
      40, 45908, 48120, 32, 47784, 46300, 32, 45, 32, 68, 66, 32, 48120, 50672, 44208, 41]"

text \<open>The message of the \<open>AttributeError\<close> for \<open>None.startswith\<close> (39 is the apostrophe).\<close>

definition none_has_no_startswith :: str where
  "none_has_no_startswith =
     [39] @ ascii ''NoneType'' @ [39] @ ascii '' object has no attribute '' @
     [39] @ ascii ''startswith'' @ [39]"

text \<open>The item list of the handler: name, quantity, price.\<close>

definition items :: "(str \<times> int \<times> real) list" where
  "items = [(americano, 2, 4500), (sandwich, 1, 6000)]"

text \<open>The \<open>for\<close> loop over the items: one \<open>INSERT\<close> each, stopping at the first that raises.\<close>

fun insert_items :: "str \<Rightarrow> (str \<times> int \<times> real) list \<Rightarrow> db_server \<Rightarrow> (pyexc + unit) \<times> db_server" where
  "insert_items rid [] s = (Inr (), s)"
| "insert_items rid ((name, quantity, price) # rest) s =
     (case insert_receipt_item
             \<lparr>item_receipt_id = rid, item_name = name, item_quantity = quantity,
              item_price = price\<rparr> s of
        (Inl e, s') \<Rightarrow> (Inl e, s')
      | (Inr u, s') \<Rightarrow> insert_items rid rest s')"

text \<open>The body of the \<open>try\<close> of \<open>upload_receipt\<close>.\<close>

definition save_receipt :: "str \<Rightarrow> str \<Rightarrow> real \<Rightarrow> pydate \<Rightarrow> db_server \<Rightarrow> (pyexc + unit) \<times> db_server" where
  "save_receipt rid merchant amount receipt_date s =
     (case acquire s of
        (Inl e, s1) \<Rightarrow> (Inl e, s1)
      | (Inr u, s1) \<Rightarrow>
         (case insert_receipt
                 \<lparr>col_receipt_id = rid, col_merchant_name = merchant,
                  col_total_amount = amount, col_receipt_date = receipt_date,
                  col_image_url = ascii ''s3://receipts/'' @ rid @ ascii ''.jpg'',
                  col_status = ascii ''processed''\<rparr> s1 of
            (Inl e, s2) \<Rightarrow> (Inl e, s2)
          | (Inr u, s2) \<Rightarrow> insert_items rid items s2))"

text \<open>
  \<open>now1\<close> and \<open>now2\<close> are the two readings of \<open>datetime.now()\<close>, for the identifier and
  for the receipt date.
\<close>

definition upload_receipt ::
  "pool option \<Rightarrow> UploadFile \<Rightarrow> datetime \<Rightarrow> datetime \<Rightarrow> db_server \<Rightarrow> (pyexc + ReceiptResponse) \<times> db_server" where
  "upload_receipt db_pool file now1 now2 s =
     (case content_type file of
        None \<Rightarrow> (Inl (AttributeError none_has_no_startswith), s)
      | Some ct \<Rightarrow>
         if \<not> startswith ct (ascii ''image/'') then
           (Inl (HTTPException 400 detail_images_only), s)
         else
           let rid = ascii ''RCP-'' @ strftime_compact now1;
               merchant = dummy_merchant_name;
               amount = 15000;
               receipt_date = date_of now2;
               (msg, s') =
                 (case db_pool of
                    Some p \<Rightarrow>
                     (case save_receipt rid merchant amount receipt_date s of
                        (Inr u, s1) \<Rightarrow> (message_saved, s1)
                      | (Inl e, s1) \<Rightarrow> (message_save_failed, s1))
                  | None \<Rightarrow> (message_dummy_mode, s))
           in (Inr \<lparr>receipt_id = rid, merchant_name = merchant, total_amount = amount,
                    date = date_isoformat receipt_date, status = ascii ''processed'',
                    message = msg\<rparr>, s'))"

subsection \<open>GET /api/receipts/{receipt_id}\<close>

definition detail_not_found :: str where
  "detail_not_found =
     [50689, 49688, 51613, 51012, 32, 52286, 51012, 32, 49688, 32, 50630, 49845, 45768, 45796]"

definition dummy_merchant_name_fallback :: str where
  "dummy_merchant_name_fallback =
     [49828, 53440, 48261, 49828, 32, 44053, 45224, 51216, 32, 40, 45908, 48120, 41]"

definition item_json :: "receipt_items_row \<Rightarrow> json" where
  "item_json i = JObj
     [(ascii ''name'', JStr (item_name i)),
      (ascii ''quantity'', JInt (item_quantity i)),
      (ascii ''price'', JFloat (item_price i))]"

definition receipt_json :: "receipts_row \<Rightarrow> receipt_items_row list \<Rightarrow> json" where
  "receipt_json r its = JObj
     [(ascii ''receipt_id'', JStr (col_receipt_id r)),
      (ascii ''merchant_name'', JStr (col_merchant_name r)),
      (ascii ''total_amount'', JFloat (col_total_amount r)),
      (ascii ''date'', JStr (date_isoformat (col_receipt_date r))),
      (ascii ''status'', JStr (col_status r)),
      (ascii ''items'', JList (map item_json its))]"

text \<open>The body of the \<open>try\<close> of \<open>get_receipt\<close>.\<close>

definition query_receipt :: "str \<Rightarrow> db_server \<Rightarrow> (pyexc + json) \<times> db_server" where
  "query_receipt rid s =
     (case acquire s of
        (Inl e, s1) \<Rightarrow> (Inl e, s1)
      | (Inr u, s1) \<Rightarrow>
         (case fetchrow_receipt rid s1 of
            (Inl e, s2) \<Rightarrow> (Inl e, s2)
          | (Inr None, s2) \<Rightarrow> (Inl (HTTPException 404 detail_not_found), s2)
          | (Inr (Some receipt), s2) \<Rightarrow>
             (case fetch_items rid s2 of
                (Inl e, s3) \<Rightarrow> (Inl e, s3)
              | (Inr its, s3) \<Rightarrow> (Inr (receipt_json receipt its), s3))))"

text \<open>The dummy response at the end of \<open>get_receipt\<close>.\<close>

definition dummy_receipt :: "str \<Rightarrow> datetime \<Rightarrow> json" where
  "dummy_receipt rid now = JObj
     [(ascii ''receipt_id'', JStr rid),
      (ascii ''merchant_name'', JStr dummy_merchant_name_fallback),
      (ascii ''total_amount'', JFloat 15000),
      (ascii ''date'', JStr (strftime_ymd now)),
      (ascii ''status'', JStr (ascii ''processed'')),
      (ascii ''items'', JList
         [JObj [(ascii ''name'', JStr americano), (ascii ''quantity'', JInt 2),
                (ascii ''price'', JInt 4500)],
          JObj [(ascii ''name'', JStr sandwich), (ascii ''quantity'', JInt 1),
                (ascii ''price'', JInt 6000)]])]"

definition get_receipt :: "pool option \<Rightarrow> str \<Rightarrow> datetime \<Rightarrow> db_server \<Rightarrow> (pyexc + json) \<times> db_server" where
  "get_receipt db_pool rid now s =
     (case db_pool of
        None \<Rightarrow> (Inr (dummy_receipt rid now), s)
      | Some p \<Rightarrow>
         (case query_receipt rid s of
            (Inr j, s') \<Rightarrow> (Inr j, s')
          | (Inl (HTTPException c d), s') \<Rightarrow> (Inl (HTTPException c d), s')
          | (Inl e, s') \<Rightarrow> (Inr (dummy_receipt rid now), s')))"

section \<open>Notions used by the properties\<close>

text \<open>A decimal digit, and the number a string of digits denotes.\<close>

definition is_digit :: "nat \<Rightarrow> bool" where
  "is_digit c = (48 \<le> c \<and> c \<le> 57)"

definition digits_value :: "str \<Rightarrow> nat" where
  "digits_value s = foldl (\<lambda>a c. 10 * a + (c - 48)) 0 s"

text \<open>
  The identifier format \<open>RCP-YYYYMMDD-HHMMSS\<close>: the prefix, eight digits, a hyphen,
  six digits.
\<close>

definition rcp_format :: "str \<Rightarrow> bool" where
  "rcp_format s =
     (length s = 19 \<and> take 4 s = ascii ''RCP-'' \<and>
      list_all is_digit (take 8 (drop 4 s)) \<and>
      take 1 (drop 12 s) = ascii ''-'' \<and>
      list_all is_digit (drop 13 s))"

text \<open>A clock reading cut to second precision.\<close>

definition to_second :: "datetime \<Rightarrow> nat \<times> nat \<times> nat \<times> nat \<times> nat \<times> nat" where
  "to_second t = (year t, month t, day t, hour t, minute t, second t)"

text \<open>
  The tables satisfy the constraints of the schema: receipt identifiers are unique, and every
  item belongs to a receipt of the table.
\<close>

definition consistent :: "tables \<Rightarrow> bool" where
  "consistent d =
     (distinct (map col_receipt_id (receipts d)) \<and>
      list_all (\<lambda>i. has_receipt d (item_receipt_id i)) (receipt_items d))"

text \<open>The coming \<open>n\<close> database operations meet no fault.\<close>

definition fault_free :: "nat \<Rightarrow> db_server \<Rightarrow> bool" where
  "fault_free n s = list_all (\<lambda>f. f = None) (take n (faults s))"

text \<open>The rows that \<open>upload_receipt\<close> writes for an identifier and a receipt date.\<close>

definition receipt_row_of :: "str \<Rightarrow> pydate \<Rightarrow> receipts_row" where
  "receipt_row_of rid d =
     \<lparr>col_receipt_id = rid, col_merchant_name = dummy_merchant_name,
      col_total_amount = 15000, col_receipt_date = d,
      col_image_url = ascii ''s3://receipts/'' @ rid @ ascii ''.jpg'',
      col_status = ascii ''processed''\<rparr>"

definition item_rows_of :: "str \<Rightarrow> (str \<times> int \<times> real) list \<Rightarrow> receipt_items_row list" where
  "item_rows_of rid its =
     map (\<lambda>(name, quantity, price).
            \<lparr>item_receipt_id = rid, item_name = name, item_quantity = quantity,
             item_price = price\<rparr>) its"

section \<open>Example inputs\<close>

definition jpeg_upload :: UploadFile where
  "jpeg_upload =
     \<lparr>filename = Some (ascii ''receipt.jpg''), content_type = Some (ascii ''image/jpeg''),
      content = [255, 216, 255, 224]\<rparr>"

definition png_upload :: UploadFile where
  "png_upload =
     \<lparr>filename = Some (ascii ''scan.png''), content_type = Some (ascii ''image/png''),
      content = [137, 80, 78, 71]\<rparr>"

definition pdf_upload :: UploadFile where
  "pdf_upload =
     \<lparr>filename = Some (ascii ''invoice.pdf''), content_type = Some (ascii ''application/pdf''),
      content = [37, 80, 68, 70]\<rparr>"

text \<open>Two clock readings within one second, and one a second later.\<close>

definition clock_093000 :: datetime where
  "clock_093000 =
     \<lparr>year = 2024, month = 1, day = 15, hour = 9, minute = 30, second = 0, microsecond = 5\<rparr>"

definition clock_093000_later :: datetime where
  "clock_093000_later =
     \<lparr>year = 2024, month = 1, day = 15, hour = 9, minute = 30, second = 0,
      microsecond = 900000\<rparr>"

definition clock_093001 :: datetime where
  "clock_093001 =
     \<lparr>year = 2024, month = 1, day = 15, hour = 9, minute = 30, second = 1, microsecond = 0\<rparr>"

definition untyped_upload :: UploadFile where
  "untyped_upload =
     \<lparr>filename = Some (ascii ''receipt.jpg''), content_type = None,
      content = [255, 216, 255, 224]\<rparr>"

definition empty_server :: db_server where
  "empty_server = \<lparr>db = \<lparr>receipts = [], receipt_items = []\<rparr>, faults = []\<rparr>"

text \<open>The server after one receipt was stored on \<open>empty_server\<close>.\<close>

definition stored_once :: "str \<Rightarrow> pydate \<Rightarrow> db_server" where
  "stored_once rid d =
     \<lparr>db = \<lparr>receipts = [receipt_row_of rid d], receipt_items = item_rows_of rid items\<rparr>,
      faults = []\<rparr>"

text \<open>
  A server on which the first item insert of an upload fails, and the server that is left
  behind: the receipt row without items.
\<close>

definition item_fault_server :: db_server where
  "item_fault_server =
     \<lparr>db = \<lparr>receipts = [], receipt_items = []\<rparr>,
      faults = [None, None, Some (ascii ''connection lost'')]\<rparr>"

definition receipt_only :: "str \<Rightarrow> pydate \<Rightarrow> db_server" where
  "receipt_only rid d =
     \<lparr>db = \<lparr>receipts = [receipt_row_of rid d], receipt_items = []\<rparr>, faults = []\<rparr>"

text \<open>A server whose first operation fails with a message of sixty characters.\<close>

definition down_server :: db_server where
  "down_server = \<lparr>db = \<lparr>receipts = [], receipt_items = []\<rparr>, faults = [Some (replicate 60 65)]\<rparr>"

section \<open>Properties\<close>

subsection \<open>Formatting numbers\<close>

lemma digits_value_snoc: "digits_value (s @ [c]) = 10 * digits_value s + (c - 48)"
  by (simp add: digits_value_def)

lemma digits_value_digits: "digits_value (digits n) = n"
proof (induction n rule: digits.induct)
  case (1 n)
  show ?case
  proof (cases "n < 10")
    case True
    then show ?thesis by (subst digits.simps) (simp add: digits_value_def)
  next
    case False
    with 1 have "digits_value (digits (n div 10)) = n div 10" by simp
    with False show ?thesis
      by (subst digits.simps) (simp add: digits_value_snoc)
  qed
qed

lemma foldl_zeros: "foldl (\<lambda>a c. 10 * a + (c - 48)) (0::nat) (replicate k 48) = 0"
  by (induction k) simp_all

lemma digits_value_zfill: "digits_value (zfill w s) = digits_value s"
  by (simp add: digits_value_def zfill_def foldl_zeros)

lemma digits_value_fmt0: "digits_value (fmt0 w n) = n"
  by (simp add: fmt0_def digits_value_zfill digits_value_digits)

lemma fmt0_inject: "fmt0 w n = fmt0 w m \<Longrightarrow> n = m"
  by (metis digits_value_fmt0)

lemma length_digits_pos: "0 < length (digits n)"
  by (subst digits.simps) simp

lemma length_digits_le: "0 < w \<Longrightarrow> n < 10 ^ w \<Longrightarrow> length (digits n) \<le> w"
proof (induction n arbitrary: w rule: digits.induct)
  case (1 n)
  show ?case
  proof (cases "n < 10")
    case True
    with 1(2) show ?thesis by (subst digits.simps) simp
  next
    case False
    obtain v where w: "w = Suc v" using 1(2) by (cases w) auto
    from False 1(3) w have v: "0 < v" by (cases v) auto
    from 1(3) w have "n div 10 < 10 ^ v" by (simp add: less_mult_imp_div_less mult.commute)
    with 1(1) False v have "length (digits (n div 10)) \<le> v" by blast
    with False w show ?thesis by (subst digits.simps) simp
  qed
qed

lemma length_fmt0: "0 < w \<Longrightarrow> n < 10 ^ w \<Longrightarrow> length (fmt0 w n) = w"
  using length_digits_le [of w n] by (simp add: fmt0_def zfill_def)

lemma digits_all_digit: "list_all is_digit (digits n)"
proof (induction n rule: digits.induct)
  case (1 n)
  show ?case
  proof (cases "n < 10")
    case True
    then show ?thesis by (subst digits.simps) (simp add: is_digit_def)
  next
    case False
    with 1 have "list_all is_digit (digits (n div 10))" by simp
    moreover have "n mod 10 < 10" by simp
    ultimately show ?thesis using False
      by (subst digits.simps) (simp add: is_digit_def)
  qed
qed

lemma fmt0_all_digit: "list_all is_digit (fmt0 w n)"
  using digits_all_digit [of n] by (auto simp add: fmt0_def zfill_def list_all_iff is_digit_def)

subsection \<open>The identifier's timestamp\<close>

lemma days_in_month_le: "days_in_month y m \<le> 31"
  by (simp add: days_in_month_def)

lemma valid_datetime_bounds:
  assumes "valid_datetime t"
  shows "year t < 10 ^ 4" "month t < 10 ^ 2" "day t < 10 ^ 2"
    "hour t < 10 ^ 2" "minute t < 10 ^ 2" "second t < 10 ^ 2"
  using assms days_in_month_le [of "year t" "month t"]
  by (simp_all add: valid_datetime_def)

lemma strftime_compact_lengths:
  assumes "valid_datetime t"
  shows "length (fmt0 4 (year t)) = 4" "length (fmt0 2 (month t)) = 2"
    "length (fmt0 2 (day t)) = 2" "length (fmt0 2 (hour t)) = 2"
    "length (fmt0 2 (minute t)) = 2" "length (fmt0 2 (second t)) = 2"
  using valid_datetime_bounds [OF assms] by (simp_all add: length_fmt0)

lemma rcp_format_strftime:
  assumes "valid_datetime t"
  shows "rcp_format (ascii ''RCP-'' @ strftime_compact t)"
  using strftime_compact_lengths [OF assms]
  by (simp add: rcp_format_def strftime_compact_def ascii_def fmt0_all_digit)

lemma strftime_compact_inject:
  assumes "valid_datetime t" and "valid_datetime t'"
  shows "(strftime_compact t = strftime_compact t') = (to_second t = to_second t')"
proof
  assume "to_second t = to_second t'"
  then show "strftime_compact t = strftime_compact t'"
    by (simp add: to_second_def strftime_compact_def)
next
  assume eq: "strftime_compact t = strftime_compact t'"
  note L = strftime_compact_lengths [OF assms(1)] and L' = strftime_compact_lengths [OF assms(2)]
  from eq L L' have "fmt0 4 (year t) = fmt0 4 (year t') \<and> fmt0 2 (month t) = fmt0 2 (month t') \<and>
      fmt0 2 (day t) = fmt0 2 (day t') \<and> fmt0 2 (hour t) = fmt0 2 (hour t') \<and>
      fmt0 2 (minute t) = fmt0 2 (minute t') \<and> fmt0 2 (second t) = fmt0 2 (second t')"
    by (simp add: strftime_compact_def)
  then show "to_second t = to_second t'"
    by (auto simp add: to_second_def dest: fmt0_inject)
qed

subsection \<open>Database operations and the handlers' blocks\<close>

lemma db_op_fault: "faults s = Some m # fs \<Longrightarrow> db_op s f = (Inl (DBException m), s\<lparr>faults := fs\<rparr>)"
  by (simp add: db_op_def)

lemma db_op_ok:
  "fault_free (Suc 0) s \<Longrightarrow>
   db_op s f = (case f (db s) of
                  Inl e \<Rightarrow> (Inl e, s\<lparr>faults := tl (faults s)\<rparr>)
                | Inr (a, d) \<Rightarrow> (Inr a, s\<lparr>db := d, faults := tl (faults s)\<rparr>))"
  by (auto simp add: db_op_def fault_free_def split: list.splits option.splits)

lemma fault_free_Suc:
  "fault_free (Suc n) s = (fault_free (Suc 0) s \<and> fault_free n (s\<lparr>faults := tl (faults s)\<rparr>))"
  by (cases "faults s") (auto simp add: fault_free_def)

lemma fault_free_db_update: "fault_free n (s\<lparr>db := d, faults := fs\<rparr>) = fault_free n (s\<lparr>faults := fs\<rparr>)"
  by (simp add: fault_free_def)

lemma fault_free_add:
  "fault_free (m + n) s = (fault_free m s \<and> fault_free n (s\<lparr>faults := drop m (faults s)\<rparr>))"
  by (simp add: fault_free_def take_add)

lemma db_op_Inr:
  "db_op s f = (Inr a, s') \<Longrightarrow>
   fault_free (Suc 0) s \<and> (\<exists>d. f (db s) = Inr (a, d) \<and> s' = s\<lparr>db := d, faults := tl (faults s)\<rparr>)"
  by (auto simp add: db_op_def fault_free_def split: list.splits option.splits sum.splits)

lemma acquire_Inr: "acquire s = (Inr u, s') \<Longrightarrow> fault_free (Suc 0) s \<and> s' = s\<lparr>faults := tl (faults s)\<rparr>"
  by (auto simp add: acquire_def dest!: db_op_Inr)

lemma insert_receipt_Inr:
  "insert_receipt row s = (Inr u, s') \<Longrightarrow>
   fault_free (Suc 0) s \<and> \<not> has_receipt (db s) (col_receipt_id row) \<and>
   s' = s\<lparr>db := (db s)\<lparr>receipts := receipts (db s) @ [row]\<rparr>, faults := tl (faults s)\<rparr>"
  by (auto simp add: insert_receipt_def dest!: db_op_Inr split: if_splits)

lemma insert_receipt_item_Inr:
  "insert_receipt_item row s = (Inr u, s') \<Longrightarrow>
   fault_free (Suc 0) s \<and> has_receipt (db s) (item_receipt_id row) \<and>
   s' = s\<lparr>db := (db s)\<lparr>receipt_items := receipt_items (db s) @ [row]\<rparr>, faults := tl (faults s)\<rparr>"
  by (auto simp add: insert_receipt_item_def dest!: db_op_Inr split: if_splits)

lemma insert_items_Inr:
  "insert_items rid its s = (Inr u, s') \<Longrightarrow>
   fault_free (length its) s \<and>
   s' = s\<lparr>db := (db s)\<lparr>receipt_items := receipt_items (db s) @ item_rows_of rid its\<rparr>,
         faults := drop (length its) (faults s)\<rparr>"
proof (induction its arbitrary: s)
  case Nil
  then show ?case by (simp add: fault_free_def item_rows_of_def)
next
  case (Cons it its)
  obtain name quantity price where it: "it = (name, quantity, price)" by (cases it) auto
  let ?row = "\<lparr>item_receipt_id = rid, item_name = name, item_quantity = quantity, item_price = price\<rparr>"
  from Cons.prems it obtain s1 where
    s1: "insert_receipt_item ?row s = (Inr (), s1)" and rest: "insert_items rid its s1 = (Inr u, s')"
    by (auto split: prod.splits sum.splits)
  from insert_receipt_item_Inr [OF s1] have
    ff: "fault_free (Suc 0) s" and
    s1eq: "s1 = s\<lparr>db := (db s)\<lparr>receipt_items := receipt_items (db s) @ [?row]\<rparr>, faults := tl (faults s)\<rparr>"
    by auto
  from Cons.IH [OF rest] have
    ff': "fault_free (length its) s1" and
    s'eq: "s' = s1\<lparr>db := (db s1)\<lparr>receipt_items := receipt_items (db s1) @ item_rows_of rid its\<rparr>,
         faults := drop (length its) (faults s1)\<rparr>"
    by auto
  have "fault_free (length (it # its)) s"
    using ff ff' s1eq by (simp add: fault_free_Suc [of "length its"] fault_free_db_update)
  moreover have "s' = s\<lparr>db := (db s)\<lparr>receipt_items := receipt_items (db s) @ item_rows_of rid (it # its)\<rparr>,
         faults := drop (length (it # its)) (faults s)\<rparr>"
    using s'eq s1eq it by (simp add: item_rows_of_def drop_Suc)
  ultimately show ?case by blast
qed

lemma save_receipt_Inr:
  assumes "save_receipt rid m a d s = (Inr u, s')"
  shows "fault_free 4 s" and "\<not> has_receipt (db s) rid"
    and "db s' = (db s)\<lparr>receipts := receipts (db s) @
                   [\<lparr>col_receipt_id = rid, col_merchant_name = m, col_total_amount = a,
                     col_receipt_date = d,
                     col_image_url = ascii ''s3://receipts/'' @ rid @ ascii ''.jpg'',
                     col_status = ascii ''processed''\<rparr>],
                 receipt_items := receipt_items (db s) @ item_rows_of rid items\<rparr>"
    and "faults s' = drop 4 (faults s)"
proof -
  let ?row = "\<lparr>col_receipt_id = rid, col_merchant_name = m, col_total_amount = a,
                     col_receipt_date = d,
                     col_image_url = ascii ''s3://receipts/'' @ rid @ ascii ''.jpg'',
                     col_status = ascii ''processed''\<rparr>"
  from assms obtain s1 s2 where
    a: "acquire s = (Inr (), s1)" and
    i: "insert_receipt ?row s1 = (Inr (), s2)" and
    l: "insert_items rid items s2 = (Inr u, s')"
    by (auto simp add: save_receipt_def split: prod.splits sum.splits)
  note A = acquire_Inr [OF a] and I = insert_receipt_Inr [OF i] and L = insert_items_Inr [OF l]
  have len: "length items = 2" by (simp add: items_def)
  have "fault_free (Suc 0 + (Suc 0 + 2)) s"
    unfolding fault_free_add using A I L len
    by (simp add: drop_Suc fault_free_db_update)
  then show "fault_free 4 s" by (simp add: numeral_eq_Suc)
  from A I show "\<not> has_receipt (db s) rid" by simp
  from A I L show "db s' = (db s)\<lparr>receipts := receipts (db s) @ [?row],
                 receipt_items := receipt_items (db s) @ item_rows_of rid items\<rparr>"
    by simp
  from A I L len show "faults s' = drop 4 (faults s)"
    by (simp add: drop_Suc tl_drop numeral_eq_Suc drop_tl)
qed

lemma messages_distinct:
  "message_saved \<noteq> message_save_failed" "message_saved \<noteq> message_dummy_mode"
  "message_save_failed \<noteq> message_dummy_mode"
  by (simp_all add: message_saved_def message_save_failed_def message_dummy_mode_def)

lemma upload_receipt_image:
  fixes now1 now2 :: datetime
  defines "resp \<equiv> \<lambda>msg. \<lparr>receipt_id = ascii ''RCP-'' @ strftime_compact now1,
      merchant_name = dummy_merchant_name, total_amount = 15000,
      date = date_isoformat (date_of now2), status = ascii ''processed'', message = msg\<rparr>"
  assumes "content_type file = Some ct" and "startswith ct (ascii ''image/'')"
  shows "upload_receipt db_pool file now1 now2 s =
    (case db_pool of
       None \<Rightarrow> (Inr (resp message_dummy_mode), s)
     | Some p \<Rightarrow>
        (case save_receipt (ascii ''RCP-'' @ strftime_compact now1) dummy_merchant_name 15000
                (date_of now2) s of
           (Inr u, s1) \<Rightarrow> (Inr (resp message_saved), s1)
         | (Inl e, s1) \<Rightarrow> (Inr (resp message_save_failed), s1)))"
  using assms(2,3)
  by (simp add: upload_receipt_def resp_def Let_def split: option.splits prod.splits sum.splits)

lemma query_receipt_fault_free:
  assumes "fault_free 3 s"
  shows "query_receipt rid s =
     (case find (\<lambda>r. col_receipt_id r = rid) (receipts (db s)) of
        None \<Rightarrow> (Inl (HTTPException 404 detail_not_found), s\<lparr>faults := drop 2 (faults s)\<rparr>)
      | Some r \<Rightarrow>
         (Inr (receipt_json r (filter (\<lambda>i. item_receipt_id i = rid) (receipt_items (db s)))),
          s\<lparr>faults := drop 3 (faults s)\<rparr>))"
  using assms
  by (cases "faults s")
     (auto simp add: query_receipt_def acquire_def fetchrow_receipt_def fetch_items_def
        db_op_def fault_free_def split: list.splits option.splits)

lemma query_receipt_first_fault:
  "faults s = Some m # fs \<Longrightarrow> query_receipt rid s = (Inl (DBException m), s\<lparr>faults := fs\<rparr>)"
  by (simp add: query_receipt_def acquire_def db_op_def)

lemma upload_receipt_failures:
  assumes "fst (upload_receipt db_pool file now1 now2 s) = Inl e"
  shows "(content_type file = None \<and> e = AttributeError none_has_no_startswith) \<or>
         (\<exists>ct. content_type file = Some ct \<and> \<not> startswith ct (ascii ''image/'') \<and>
               e = HTTPException 400 detail_images_only)"
  using assms
  by (auto simp add: upload_receipt_def Let_def split: option.splits prod.splits sum.splits if_splits)

lemma query_receipt_raises:
  assumes "fst (query_receipt rid s) = Inl e"
  shows "(e = HTTPException 404 detail_not_found \<and> fault_free 2 s \<and> \<not> has_receipt (db s) rid) \<or>
         (\<exists>m. e = DBException m)"
  using assms
  by (cases "faults s")
     (auto simp add: query_receipt_def acquire_def fetchrow_receipt_def fetch_items_def
        db_op_def fault_free_def has_receipt_def find_None_iff
        split: list.splits option.splits prod.splits sum.splits if_splits)

lemma get_receipt_failures:
  assumes "fst (get_receipt db_pool rid now s) = Inl e"
  shows "e = HTTPException 404 detail_not_found \<and> db_pool \<noteq> None \<and> fault_free 2 s \<and>
         \<not> has_receipt (db s) rid"
proof (cases db_pool)
  case None
  with assms show ?thesis by (simp add: get_receipt_def)
next
  case (Some p)
  obtain r s' where q: "query_receipt rid s = (r, s')" by (cases "query_receipt rid s")
  show ?thesis
  proof (cases r)
    case (Inr j)
    with assms Some q show ?thesis by (simp add: get_receipt_def)
  next
    case (Inl x)
    with q have "fst (query_receipt rid s) = Inl x" by simp
    from query_receipt_raises [OF this] assms Some q Inl show ?thesis
      by (auto simp add: get_receipt_def)
  qed
qed

lemma upload_receipt_image_result:
  assumes "content_type file = Some ct" and "startswith ct (ascii ''image/'')"
  shows "\<exists>r s'. upload_receipt db_pool file now1 now2 s = (Inr r, s') \<and>
     receipt_id r = ascii ''RCP-'' @ strftime_compact now1 \<and>
     merchant_name r = dummy_merchant_name \<and> total_amount r = 15000 \<and>
     date r = date_isoformat (date_of now2) \<and>
     ReceiptResponse.status r = ascii ''processed'' \<and>
     (message r = message_dummy_mode) = (db_pool = None) \<and>
     (message r = message_saved) =
       (db_pool \<noteq> None \<and>
        \<not> isl (fst (save_receipt (receipt_id r) dummy_merchant_name 15000 (date_of now2) s))) \<and>
     (message r = message_save_failed) =
       (db_pool \<noteq> None \<and>
        isl (fst (save_receipt (receipt_id r) dummy_merchant_name 15000 (date_of now2) s))) \<and>
     (db_pool = None \<longrightarrow> s' = s) \<and>
     (db_pool \<noteq> None \<longrightarrow>
        s' = snd (save_receipt (receipt_id r) dummy_merchant_name 15000 (date_of now2) s))"
  using messages_distinct
  by (auto simp add: upload_receipt_image [OF assms] split: option.splits prod.splits sum.splits)

lemma example_clocks:
  "strftime_compact clock_093000 = ascii ''20240115-093000''"
  "strftime_compact clock_093000_later = ascii ''20240115-093000''"
  "strftime_compact clock_093001 = ascii ''20240115-093001''"
  "valid_datetime clock_093000" "valid_datetime clock_093000_later" "valid_datetime clock_093001"
  "date_isoformat (date_of clock_093000) = ascii ''2024-01-15''"
  "date_isoformat (date_of clock_093000_later) = ascii ''2024-01-15''"
  by (simp_all add: clock_093000_def clock_093000_later_def clock_093001_def
      strftime_compact_def date_isoformat_def date_of_def fmt0_def zfill_def digits.simps
      ascii_def valid_datetime_def days_in_month_def is_leap_def)

lemma example_uploads:
  "content_type jpeg_upload = Some (ascii ''image/jpeg'')"
  "startswith (ascii ''image/jpeg'') (ascii ''image/'')"
  "content_type png_upload = Some (ascii ''image/png'')"
  "startswith (ascii ''image/png'') (ascii ''image/'')"
  by (simp_all add: jpeg_upload_def png_upload_def startswith_def ascii_def)

lemma save_receipt_empty_server:
  "save_receipt rid dummy_merchant_name 15000 d empty_server = (Inr (), stored_once rid d)"
  by (simp add: save_receipt_def acquire_def insert_receipt_def insert_receipt_item_def
      db_op_def has_receipt_def empty_server_def items_def stored_once_def receipt_row_of_def
      item_rows_of_def)

lemma save_receipt_again:
  "save_receipt rid dummy_merchant_name 15000 d' (stored_once rid d) =
     (Inl (DBException unique_violation), stored_once rid d)"
  by (simp add: save_receipt_def acquire_def insert_receipt_def
      db_op_def has_receipt_def stored_once_def receipt_row_of_def)

lemma upload_receipt_Inr_image:
  assumes "fst (upload_receipt db_pool file now1 now2 s) = Inr r"
  shows "\<exists>ct. content_type file = Some ct \<and> startswith ct (ascii ''image/'')"
  using assms
  by (cases "content_type file") (auto simp add: upload_receipt_def split: if_splits)

lemma find_no_match_append:
  "\<forall>x \<in> set xs. \<not> P x \<Longrightarrow> find P (xs @ ys) = find P ys"
  by (induction xs) simp_all

lemma find_appended_row:
  assumes "\<not> has_receipt d rid" and "col_receipt_id row = rid"
  shows "find (\<lambda>r. col_receipt_id r = rid) (receipts d @ [row]) = Some row"
proof -
  from assms(1) have "\<forall>x \<in> set (receipts d). \<not> col_receipt_id x = rid"
    by (auto simp add: has_receipt_def)
  from find_no_match_append [OF this] assms(2) show ?thesis by simp
qed

lemma filter_items_absent:
  assumes "consistent d" and "\<not> has_receipt d rid"
  shows "filter (\<lambda>i. item_receipt_id i = rid) (receipt_items d) = []"
  using assms by (auto simp add: consistent_def list_all_iff filter_empty_conv)

lemma filter_item_rows_of:
  "filter (\<lambda>i. item_receipt_id i = rid) (item_rows_of rid its) = item_rows_of rid its"
  by (induction its) (auto simp add: item_rows_of_def)

lemma has_receipt_items_update:
  "has_receipt (d\<lparr>receipt_items := its\<rparr>) rid = has_receipt d rid"
  by (simp add: has_receipt_def)

lemma insert_items_fault:
  assumes "faults s = replicate k None @ Some m # fs" and "k < length its"
    and "has_receipt (db s) rid"
  shows "insert_items rid its s =
     (Inl (DBException m),
      s\<lparr>db := (db s)\<lparr>receipt_items := receipt_items (db s) @ take k (item_rows_of rid its)\<rparr>,
        faults := fs\<rparr>)"
  using assms
proof (induction its arbitrary: k s)
  case Nil
  then show ?case by simp
next
  case (Cons it its)
  obtain name quantity price where it: "it = (name, quantity, price)" by (cases it) auto
  show ?case
  proof (cases k)
    case 0
    with Cons.prems it show ?thesis
      by (simp add: insert_receipt_item_def db_op_def)
  next
    case (Suc j)
    let ?row = "\<lparr>item_receipt_id = rid, item_name = name, item_quantity = quantity,
                 item_price = price\<rparr>"
    let ?s1 = "s\<lparr>db := (db s)\<lparr>receipt_items := receipt_items (db s) @ [?row]\<rparr>,
                 faults := replicate j None @ Some m # fs\<rparr>"
    from Cons.prems Suc have step: "insert_receipt_item ?row s = (Inr (), ?s1)"
      by (simp add: insert_receipt_item_def db_op_def)
    have "insert_items rid its ?s1 =
       (Inl (DBException m),
        ?s1\<lparr>db := (db ?s1)\<lparr>receipt_items := receipt_items (db ?s1) @ take j (item_rows_of rid its)\<rparr>,
          faults := fs\<rparr>)"
      using Cons.prems Suc by (intro Cons.IH) (simp_all add: has_receipt_items_update)
    with step it Suc show ?thesis
      by (simp add: item_rows_of_def)
  qed
qed

lemma save_receipt_item_fault:
  assumes "\<not> has_receipt (db s) rid"
    and "faults s = None # None # replicate k None @ Some msg # fs" and "k < length items"
  shows "save_receipt rid m a d s =
     (Inl (DBException msg),
      s\<lparr>db := (db s)\<lparr>receipts := receipts (db s) @
                   [\<lparr>col_receipt_id = rid, col_merchant_name = m, col_total_amount = a,
                     col_receipt_date = d,
                     col_image_url = ascii ''s3://receipts/'' @ rid @ ascii ''.jpg'',
                     col_status = ascii ''processed''\<rparr>],
                 receipt_items := receipt_items (db s) @ take k (item_rows_of rid items)\<rparr>,
        faults := fs\<rparr>)"
proof -
  let ?row = "\<lparr>col_receipt_id = rid, col_merchant_name = m, col_total_amount = a,
                     col_receipt_date = d,
                     col_image_url = ascii ''s3://receipts/'' @ rid @ ascii ''.jpg'',
                     col_status = ascii ''processed''\<rparr>"
  let ?s1 = "s\<lparr>faults := None # replicate k None @ Some msg # fs\<rparr>"
  let ?s2 = "s\<lparr>db := (db s)\<lparr>receipts := receipts (db s) @ [?row]\<rparr>,
               faults := replicate k None @ Some msg # fs\<rparr>"
  from assms(2) have a: "acquire s = (Inr (), ?s1)"
    by (simp add: acquire_def db_op_def)
  from assms(1) have i: "insert_receipt ?row ?s1 = (Inr (), ?s2)"
    by (simp add: insert_receipt_def db_op_def)
  have h: "has_receipt (db ?s2) rid" by (simp add: has_receipt_def)
  have f: "faults ?s2 = replicate k None @ Some msg # fs" by simp
  from a i insert_items_fault [OF f assms(3) h] show ?thesis
    by (simp add: save_receipt_def)
qed

subsection \<open>The schema constraints are an invariant of the handlers\<close>

lemma acquire_db: "db (snd (acquire s)) = db s"
  by (simp add: acquire_def db_op_def split: list.splits option.splits)

lemma insert_receipt_consistent:
  "consistent (db s) \<Longrightarrow> consistent (db (snd (insert_receipt row s)))"
  by (auto simp add: insert_receipt_def db_op_def consistent_def has_receipt_def list_all_iff
      split: list.splits option.splits)

lemma insert_receipt_item_consistent:
  "consistent (db s) \<Longrightarrow> consistent (db (snd (insert_receipt_item row s)))"
  by (auto simp add: insert_receipt_item_def db_op_def consistent_def has_receipt_def list_all_iff
      split: list.splits option.splits)

lemma insert_items_consistent:
  "consistent (db s) \<Longrightarrow> consistent (db (snd (insert_items rid its s)))"
proof (induction its arbitrary: s)
  case Nil
  then show ?case by simp
next
  case (Cons it its)
  obtain name quantity price where it: "it = (name, quantity, price)" by (cases it) auto
  let ?row = "\<lparr>item_receipt_id = rid, item_name = name, item_quantity = quantity,
               item_price = price\<rparr>"
  obtain res s1 where step: "insert_receipt_item ?row s = (res, s1)"
    by (cases "insert_receipt_item ?row s")
  from insert_receipt_item_consistent [OF Cons.prems, of ?row] step
  have c1: "consistent (db s1)" by simp
  show ?case
  proof (cases res)
    case (Inl e)
    with step it c1 show ?thesis by simp
  next
    case (Inr u)
    with step it Cons.IH [OF c1] show ?thesis by simp
  qed
qed

lemma save_receipt_consistent:
  assumes "consistent (db s)"
  shows "consistent (db (snd (save_receipt rid m a d s)))"
proof -
  let ?row = "\<lparr>col_receipt_id = rid, col_merchant_name = m, col_total_amount = a,
               col_receipt_date = d,
               col_image_url = ascii ''s3://receipts/'' @ rid @ ascii ''.jpg'',
               col_status = ascii ''processed''\<rparr>"
  obtain r1 s1 where a: "acquire s = (r1, s1)" by (cases "acquire s")
  with acquire_db [of s] assms have c1: "consistent (db s1)" by simp
  obtain r2 s2 where i: "insert_receipt ?row s1 = (r2, s2)" by (cases "insert_receipt ?row s1")
  with insert_receipt_consistent [OF c1, of ?row] have c2: "consistent (db s2)" by simp
  from a i c1 c2 insert_items_consistent [OF c2, of rid items] show ?thesis
    by (cases r1; cases r2) (simp_all add: save_receipt_def)
qed

lemma upload_receipt_consistent:
  assumes "consistent (db s)"
  shows "consistent (db (snd (upload_receipt db_pool file now1 now2 s)))"
proof (cases "content_type file")
  case None
  with assms show ?thesis by (simp add: upload_receipt_def)
next
  case (Some ct)
  show ?thesis
  proof (cases "startswith ct (ascii ''image/'')")
    case False
    with Some assms show ?thesis by (simp add: upload_receipt_def)
  next
    case True
    from assms
      save_receipt_consistent [OF assms, of "ascii ''RCP-'' @ strftime_compact now1"
        dummy_merchant_name 15000 "date_of now2"]
    show ?thesis
      by (auto simp add: upload_receipt_image [OF Some True]
          split: option.splits prod.splits sum.splits)
  qed
qed

lemma query_receipt_db: "db (snd (query_receipt rid s)) = db s"
  by (simp add: query_receipt_def acquire_def fetchrow_receipt_def fetch_items_def db_op_def
      split: list.splits option.splits)

lemma get_receipt_db: "db (snd (get_receipt db_pool rid now s)) = db s"
  using query_receipt_db [of rid s]
  by (cases "query_receipt rid s")
     (auto simp add: get_receipt_def split: option.splits sum.splits pyexc.splits)

subsection \<open>Rejected uploads\<close>

text \<open>
  An upload whose content type is a string that does not start with \<open>image/\<close> is
  refused with the HTTP 400 exception, and the handler performs no database operation on
  the way: the server (its tables, and the plan of coming operations) is returned as it was.
\<close>

lemma upload_receipt_rejects_non_image:
  assumes "content_type file = Some ct" and "\<not> startswith ct (ascii ''image/'')"
  shows "upload_receipt db_pool file now1 now2 s =
           (Inl (HTTPException 400 detail_images_only), s)"
  using assms by (simp add: upload_receipt_def)

lemma upload_receipt_rejects_pdf:
  "content_type pdf_upload = Some (ascii ''application/pdf'') \<and>
   \<not> startswith (ascii ''application/pdf'') (ascii ''image/'') \<and>
   upload_receipt (Some Pool) pdf_upload clock_093000 clock_093000_later empty_server =
     (Inl (HTTPException 400 detail_images_only), empty_server)"
proof -
  have a: "content_type pdf_upload = Some (ascii ''application/pdf'')"
    by (simp add: pdf_upload_def)
  have b: "\<not> startswith (ascii ''application/pdf'') (ascii ''image/'')"
    by (simp add: startswith_def ascii_def)
  from a b upload_receipt_rejects_non_image [OF a b] show ?thesis by blast
qed

text \<open>
  C6. Every upload whose content type does not start with \<open>image/\<close> should fail with
  the HTTP 400 exception and leave the database untouched. The upload whose file part
  carries no content type at all is such an upload, and the handler does not answer it with
  the HTTP 400: \<open>file.content_type\<close> is \<open>None\<close>, the test
  \<open>file.content_type.startswith("image/")\<close> raises \<open>AttributeError\<close>, and that is
  what reaches the caller. No database operation has run by then, so the second half of the
  property holds there: the server is returned as it was.
\<close>

theorem upload_receipt_untyped_is_not_rejected_with_400:
  "content_type untyped_upload = None \<and>
   upload_receipt db_pool untyped_upload now1 now2 s =
     (Inl (AttributeError none_has_no_startswith), s) \<and>
   fst (upload_receipt db_pool untyped_upload now1 now2 s) \<noteq>
     Inl (HTTPException 400 detail_images_only)"
  by (simp add: upload_receipt_def untyped_upload_def)

subsection \<open>Health check\<close>

text \<open>
  C7. The health check reports \<open>healthy\<close> exactly when the database status is
  \<open>connected\<close>, and \<open>degraded\<close> otherwise. When the probe (acquiring a connection and
  running \<open>SELECT 1\<close>) raises, the database field is \<open>error: \<close> followed by the first
  50 characters of the exception's text.
\<close>

theorem health_check_status:
  "((HealthResponse.status (fst (health_check db_pool now s)) = ascii ''healthy'') =
      (database (fst (health_check db_pool now s)) = ascii ''connected'')) \<and>
   (HealthResponse.status (fst (health_check db_pool now s)) \<noteq> ascii ''healthy'' \<longrightarrow>
      HealthResponse.status (fst (health_check db_pool now s)) = ascii ''degraded'') \<and>
   (db_pool = Some p \<and> fst (ping s) = Inl e \<longrightarrow>
      database (fst (health_check db_pool now s)) = ascii ''error: '' @ take 50 (str_of_exc e) \<and>
      length (take 50 (str_of_exc e)) \<le> 50 \<and>
      HealthResponse.status (fst (health_check db_pool now s)) = ascii ''degraded'')"
  by (auto simp add: health_check_def Let_def ascii_def
      split: option.splits prod.splits sum.splits)

theorem health_check_status_witness:
  "fst (ping down_server) = Inl (DBException (replicate 60 65)) \<and>
   database (fst (health_check (Some Pool) clock_093000 down_server)) =
     ascii ''error: '' @ replicate 50 65 \<and>
   HealthResponse.status (fst (health_check (Some Pool) clock_093000 down_server)) =
     ascii ''degraded'' \<and>
   HealthResponse.status (fst (health_check (Some Pool) clock_093000 empty_server)) =
     ascii ''healthy''"
proof -
  have p: "fst (ping down_server) = Inl (DBException (replicate 60 65))"
    by (simp add: ping_def acquire_def db_op_def down_server_def)
  have q: "database (fst (health_check (Some Pool) clock_093000 empty_server)) = ascii ''connected''"
    by (simp add: health_check_def ping_def acquire_def fetchval_select_1_def db_op_def
        empty_server_def)
  have t: "take 50 (replicate 60 (65::nat)) = replicate 50 65" by simp
  from p q t
    health_check_status [of "Some Pool" clock_093000 down_server Pool "DBException (replicate 60 65)"]
    health_check_status [of "Some Pool" clock_093000 empty_server]
  show ?thesis by simp
qed

subsection \<open>Failures that reach the caller\<close>

text \<open>
  C4. The claim is that the handlers surface no failure other than the HTTP 400 of a rejected
  upload and the HTTP 404 of an absent receipt. An upload whose file part carries no content
  type reaches \<open>file.content_type.startswith\<close> with \<open>None\<close>: the handler raises
  \<open>AttributeError\<close>, outside every \<open>try\<close>, before any database operation. The lemmas
  \<open>upload_receipt_failures\<close> and \<open>get_receipt_failures\<close> above give the failures of
  all other requests.
\<close>

theorem upload_receipt_without_content_type:
  "upload_receipt db_pool \<lparr>filename = name, content_type = None, content = bytes\<rparr> now1 now2 s =
     (Inl (AttributeError none_has_no_startswith), s)"
  by (simp add: upload_receipt_def)

subsection \<open>The upload's result and the uploaded file\<close>

text \<open>
  C9. Two uploads of image files that read the same two clock values return the same
  identifier, merchant name, total amount, date and status, whatever the files' names,
  contents and image types, and whatever the state of storage; against the same storage the
  whole outcome (message and server state included) is the same.
\<close>

theorem upload_receipt_ignores_file:
  assumes "content_type file1 = Some ct1" and "startswith ct1 (ascii ''image/'')"
    and "content_type file2 = Some ct2" and "startswith ct2 (ascii ''image/'')"
  shows "\<exists>r1 r2.
      fst (upload_receipt pool1 file1 now1 now2 s1) = Inr r1 \<and>
      fst (upload_receipt pool2 file2 now1 now2 s2) = Inr r2 \<and>
      receipt_id r1 = receipt_id r2 \<and> merchant_name r1 = merchant_name r2 \<and>
      total_amount r1 = total_amount r2 \<and> date r1 = date r2 \<and>
      ReceiptResponse.status r1 = ReceiptResponse.status r2 \<and>
      upload_receipt pool1 file1 now1 now2 s1 = upload_receipt pool1 file2 now1 now2 s1"
  by (simp add: upload_receipt_image [OF assms(1,2)] upload_receipt_image [OF assms(3,4)]
      split: option.splits prod.splits sum.splits)

theorem upload_receipt_ignores_file_witness:
  "content_type jpeg_upload = Some (ascii ''image/jpeg'') \<and>
   startswith (ascii ''image/jpeg'') (ascii ''image/'') \<and>
   content_type png_upload = Some (ascii ''image/png'') \<and>
   startswith (ascii ''image/png'') (ascii ''image/'') \<and>
   (\<exists>r1 r2.
      fst (upload_receipt (Some Pool) jpeg_upload clock_093000 clock_093000_later empty_server) = Inr r1 \<and>
      fst (upload_receipt None png_upload clock_093000 clock_093000_later down_server) = Inr r2 \<and>
      receipt_id r1 = receipt_id r2 \<and> merchant_name r1 = merchant_name r2 \<and>
      total_amount r1 = total_amount r2 \<and> date r1 = date r2 \<and>
      ReceiptResponse.status r1 = ReceiptResponse.status r2 \<and>
      upload_receipt (Some Pool) jpeg_upload clock_093000 clock_093000_later empty_server =
      upload_receipt (Some Pool) png_upload clock_093000 clock_093000_later empty_server)"
proof -
  have a: "content_type jpeg_upload = Some (ascii ''image/jpeg'')"
    by (simp add: jpeg_upload_def)
  have b: "startswith (ascii ''image/jpeg'') (ascii ''image/'')"
    by (simp add: startswith_def ascii_def)
  have c: "content_type png_upload = Some (ascii ''image/png'')"
    by (simp add: png_upload_def)
  have d: "startswith (ascii ''image/png'') (ascii ''image/'')"
    by (simp add: startswith_def ascii_def)
  from a b c d
    upload_receipt_ignores_file [OF a b c d, of "Some Pool" clock_093000 clock_093000_later
      empty_server None down_server]
  show ?thesis by blast
qed

subsection \<open>Degraded retrieval\<close>

text \<open>
  C10. Without a pool, or when the query block raises a database exception, \<open>get_receipt\<close>
  returns the dummy receipt, whose \<open>receipt_id\<close> is the requested identifier as it
  came; the tables play no part in the answer.
\<close>

theorem get_receipt_degraded:
  assumes "db_pool = None \<or> (\<exists>m. fst (query_receipt rid s) = Inl (DBException m))"
  shows "fst (get_receipt db_pool rid now s) = Inr (dummy_receipt rid now) \<and>
         dict_get (dummy_receipt rid now) (ascii ''receipt_id'') = Some (JStr rid)"
  using assms
  by (auto simp add: get_receipt_def dummy_receipt_def ascii_def
      split: option.splits prod.splits sum.splits)

theorem get_receipt_degraded_witness:
  "fst (query_receipt (ascii ''no-such-receipt'') down_server) = Inl (DBException (replicate 60 65)) \<and>
   fst (get_receipt (Some Pool) (ascii ''no-such-receipt'') clock_093000 down_server) =
     Inr (dummy_receipt (ascii ''no-such-receipt'') clock_093000) \<and>
   fst (get_receipt None (ascii ''no-such-receipt'') clock_093000 empty_server) =
     Inr (dummy_receipt (ascii ''no-such-receipt'') clock_093000) \<and>
   dict_get (dummy_receipt (ascii ''no-such-receipt'') clock_093000) (ascii ''receipt_id'') =
     Some (JStr (ascii ''no-such-receipt''))"
proof -
  have q: "fst (query_receipt (ascii ''no-such-receipt'') down_server) =
             Inl (DBException (replicate 60 65))"
  proof -
    have "faults down_server = Some (replicate 60 65) # []"
      by (simp add: down_server_def)
    from query_receipt_first_fault [OF this] show ?thesis by simp
  qed
  then have h: "Some Pool = None \<or>
      (\<exists>m. fst (query_receipt (ascii ''no-such-receipt'') down_server) = Inl (DBException m))"
    by blast
  have n: "(None :: pool option) = None \<or>
      (\<exists>m. fst (query_receipt (ascii ''no-such-receipt'') empty_server) = Inl (DBException m))"
    by simp
  from q get_receipt_degraded [OF h, of clock_093000] get_receipt_degraded [OF n, of clock_093000]
  show ?thesis by blast
qed

subsection \<open>Identifiers of distinct uploads\<close>

text \<open>
  C3, as claimed: any two uploads receive different identifiers, also within one clock
  second. The identifier is the clock reading cut to the second and nothing else: a second
  upload, 0.9 s after the first and within the same second, receives the identifier of the
  first (and its receipt row is refused by the database).
\<close>

theorem same_second_same_identifier:
  "upload_receipt (Some Pool) jpeg_upload clock_093000 clock_093000 empty_server =
     (Inr \<lparr>receipt_id = ascii ''RCP-20240115-093000'', merchant_name = dummy_merchant_name,
           total_amount = 15000, date = ascii ''2024-01-15'', status = ascii ''processed'',
           message = message_saved\<rparr>,
      stored_once (ascii ''RCP-20240115-093000'') (date_of clock_093000)) \<and>
   upload_receipt (Some Pool) png_upload clock_093000_later clock_093000_later
       (stored_once (ascii ''RCP-20240115-093000'') (date_of clock_093000)) =
     (Inr \<lparr>receipt_id = ascii ''RCP-20240115-093000'', merchant_name = dummy_merchant_name,
           total_amount = 15000, date = ascii ''2024-01-15'', status = ascii ''processed'',
           message = message_save_failed\<rparr>,
      stored_once (ascii ''RCP-20240115-093000'') (date_of clock_093000)) \<and>
   clock_093000 \<noteq> clock_093000_later"
proof -
  have rid: "ascii ''RCP-'' @ ascii ''20240115-093000'' = ascii ''RCP-20240115-093000''"
    by (simp add: ascii_def)
  show ?thesis
    by (simp add: upload_receipt_image [OF example_uploads(1,2)]
        upload_receipt_image [OF example_uploads(3,4)] example_clocks rid
        save_receipt_empty_server save_receipt_again)
       (simp add: clock_093000_def clock_093000_later_def)
qed

text \<open>
  C3, amended: the identifiers of two uploads are equal exactly when the two clock readings
  agree down to the second; uploads in different seconds receive different identifiers.
\<close>

theorem upload_receipt_identifier_collision:
  assumes "content_type file = Some ct" and "startswith ct (ascii ''image/'')"
    and "content_type file' = Some ct'" and "startswith ct' (ascii ''image/'')"
    and "valid_datetime now1" and "valid_datetime now1'"
  shows "\<exists>r r'.
      fst (upload_receipt db_pool file now1 now2 s) = Inr r \<and>
      fst (upload_receipt db_pool' file' now1' now2' s') = Inr r' \<and>
      (receipt_id r = receipt_id r') = (to_second now1 = to_second now1')"
proof -
  from upload_receipt_image_result [OF assms(1,2), of db_pool now1 now2 s]
  obtain r where r: "fst (upload_receipt db_pool file now1 now2 s) = Inr r"
    "receipt_id r = ascii ''RCP-'' @ strftime_compact now1" by auto
  from upload_receipt_image_result [OF assms(3,4), of db_pool' now1' now2' s']
  obtain r' where r': "fst (upload_receipt db_pool' file' now1' now2' s') = Inr r'"
    "receipt_id r' = ascii ''RCP-'' @ strftime_compact now1'" by auto
  from r r' strftime_compact_inject [OF assms(5,6)] show ?thesis by simp
qed

theorem upload_receipt_identifier_collision_witness:
  "(\<exists>r r'.
      fst (upload_receipt (Some Pool) jpeg_upload clock_093000 clock_093000 empty_server) = Inr r \<and>
      fst (upload_receipt (Some Pool) png_upload clock_093001 clock_093001 empty_server) = Inr r' \<and>
      receipt_id r \<noteq> receipt_id r') \<and>
   (\<exists>r r'.
      fst (upload_receipt (Some Pool) jpeg_upload clock_093000 clock_093000 empty_server) = Inr r \<and>
      fst (upload_receipt (Some Pool) png_upload clock_093000_later clock_093000_later empty_server) = Inr r' \<and>
      receipt_id r = receipt_id r')"
proof -
  have a: "to_second clock_093000 \<noteq> to_second clock_093001"
    by (simp add: to_second_def clock_093000_def clock_093001_def)
  have b: "to_second clock_093000 = to_second clock_093000_later"
    by (simp add: to_second_def clock_093000_def clock_093000_later_def)
  from a b
    upload_receipt_identifier_collision [OF example_uploads example_clocks(4) example_clocks(6),
      of "Some Pool" clock_093000 empty_server "Some Pool" clock_093001 empty_server]
    upload_receipt_identifier_collision [OF example_uploads example_clocks(4) example_clocks(5),
      of "Some Pool" clock_093000 empty_server "Some Pool" clock_093000_later empty_server]
  show ?thesis by simp
qed

subsection \<open>Identifier format and provenance\<close>

text \<open>
  C5, as claimed: the result of an upload carries a provenance tag, \<open>persisted\<close> or
  \<open>synthetic\<close>. The response model has six fields and none of them is a tag.
\<close>

theorem upload_receipt_result_has_no_tag:
  "fst (upload_receipt (Some Pool) jpeg_upload clock_093000 clock_093000_later empty_server) =
     Inr \<lparr>receipt_id = ascii ''RCP-20240115-093000'', merchant_name = dummy_merchant_name,
          total_amount = 15000, date = ascii ''2024-01-15'', status = ascii ''processed'',
          message = message_saved\<rparr> \<and>
   dict_get (ReceiptResponse_json
       \<lparr>receipt_id = ascii ''RCP-20240115-093000'', merchant_name = dummy_merchant_name,
        total_amount = 15000, date = ascii ''2024-01-15'', status = ascii ''processed'',
        message = message_saved\<rparr>) (ascii ''tag'') = None \<and>
   map fst (case ReceiptResponse_json
       \<lparr>receipt_id = ascii ''RCP-20240115-093000'', merchant_name = dummy_merchant_name,
        total_amount = 15000, date = ascii ''2024-01-15'', status = ascii ''processed'',
        message = message_saved\<rparr> of JObj kvs \<Rightarrow> kvs | _ \<Rightarrow> []) =
     [ascii ''receipt_id'', ascii ''merchant_name'', ascii ''total_amount'', ascii ''date'',
      ascii ''status'', ascii ''message'']"
proof -
  have rid: "ascii ''RCP-'' @ ascii ''20240115-093000'' = ascii ''RCP-20240115-093000''"
    by (simp add: ascii_def)
  have "fst (upload_receipt (Some Pool) jpeg_upload clock_093000 clock_093000_later empty_server) =
     Inr \<lparr>receipt_id = ascii ''RCP-20240115-093000'', merchant_name = dummy_merchant_name,
          total_amount = 15000, date = ascii ''2024-01-15'', status = ascii ''processed'',
          message = message_saved\<rparr>"
    by (simp add: upload_receipt_image [OF example_uploads(1,2)] example_clocks rid
        save_receipt_empty_server)
  then show ?thesis
    by (simp add: ReceiptResponse_json_def ascii_def)
qed

text \<open>
  C5, amended: for an upload whose content type starts with \<open>image/\<close> the handler
  returns a response whose identifier is \<open>RCP-\<close> followed by the clock reading as
  \<open>YYYYMMDD-HHMMSS\<close>. The response has no tag field; provenance shows in the message
  only, which is one of three fixed texts, and is the "saved" text exactly when there is a
  pool and the block of inserts ran without an exception.
\<close>

theorem upload_receipt_identifier_and_message:
  assumes "content_type file = Some ct" and "startswith ct (ascii ''image/'')"
    and "valid_datetime now1"
  shows "\<exists>r. fst (upload_receipt db_pool file now1 now2 s) = Inr r \<and>
     receipt_id r = ascii ''RCP-'' @ strftime_compact now1 \<and>
     rcp_format (receipt_id r) \<and>
     (message r = message_saved \<or> message r = message_save_failed \<or>
      message r = message_dummy_mode) \<and>
     (message r = message_saved) =
       (db_pool \<noteq> None \<and>
        \<not> isl (fst (save_receipt (receipt_id r) dummy_merchant_name 15000 (date_of now2) s))) \<and>
     dict_get (ReceiptResponse_json r) (ascii ''tag'') = None"
proof -
  from upload_receipt_image_result [OF assms(1,2), of db_pool now1 now2 s]
  obtain r s' where r: "upload_receipt db_pool file now1 now2 s = (Inr r, s')"
    "receipt_id r = ascii ''RCP-'' @ strftime_compact now1"
    "(message r = message_dummy_mode) = (db_pool = None)"
    "(message r = message_saved) =
       (db_pool \<noteq> None \<and>
        \<not> isl (fst (save_receipt (receipt_id r) dummy_merchant_name 15000 (date_of now2) s)))"
    "(message r = message_save_failed) =
       (db_pool \<noteq> None \<and>
        isl (fst (save_receipt (receipt_id r) dummy_merchant_name 15000 (date_of now2) s)))"
    by blast
  have tag: "dict_get (ReceiptResponse_json r) (ascii ''tag'') = None"
    by (simp add: ReceiptResponse_json_def ascii_def)
  from r(3,4,5) have msg: "message r = message_saved \<or> message r = message_save_failed \<or>
      message r = message_dummy_mode" by blast
  from r(1,2,4) rcp_format_strftime [OF assms(3)] tag msg show ?thesis by simp
qed

theorem upload_receipt_identifier_and_message_witness:
  "content_type png_upload = Some (ascii ''image/png'') \<and>
   startswith (ascii ''image/png'') (ascii ''image/'') \<and> valid_datetime clock_093001 \<and>
   (\<exists>r. fst (upload_receipt None png_upload clock_093001 clock_093000 down_server) = Inr r \<and>
     receipt_id r = ascii ''RCP-20240115-093001'' \<and>
     rcp_format (ascii ''RCP-20240115-093001'') \<and>
     message r = message_dummy_mode \<and>
     dict_get (ReceiptResponse_json r) (ascii ''tag'') = None)"
proof -
  have rid: "ascii ''RCP-'' @ ascii ''20240115-093001'' = ascii ''RCP-20240115-093001''"
    by (simp add: ascii_def)
  from upload_receipt_identifier_and_message [OF example_uploads(3,4) example_clocks(6),
      of None clock_093000 down_server]
  obtain r where r: "fst (upload_receipt None png_upload clock_093001 clock_093000 down_server) = Inr r"
    "receipt_id r = ascii ''RCP-'' @ strftime_compact clock_093001"
    "rcp_format (receipt_id r)"
    "message r = message_saved \<or> message r = message_save_failed \<or>
      message r = message_dummy_mode"
    "(message r = message_saved) =
       (None \<noteq> (None :: pool option) \<and>
        \<not> isl (fst (save_receipt (receipt_id r) dummy_merchant_name 15000
                      (date_of clock_093000) down_server)))"
    "dict_get (ReceiptResponse_json r) (ascii ''tag'') = None"
    by blast
  have "message r = message_dummy_mode"
    using r(1) by (auto simp add: upload_receipt_image [OF example_uploads(3,4)])
  with r example_uploads(3,4) example_clocks(3,6) rid show ?thesis by auto
qed

subsection \<open>The dummy analysis\<close>

text \<open>
  C8, as claimed: the merchant name of the result is "Sample Merchant". The handler's
  constant is another string.
\<close>

theorem upload_receipt_merchant_is_not_sample:
  "fst (upload_receipt None png_upload clock_093000 clock_093000 empty_server) =
     Inr \<lparr>receipt_id = ascii ''RCP-20240115-093000'', merchant_name = dummy_merchant_name,
          total_amount = 15000, date = ascii ''2024-01-15'', status = ascii ''processed'',
          message = message_dummy_mode\<rparr> \<and>
   dummy_merchant_name = [49828, 53440, 48261, 49828, 32, 44053, 45224, 51216] \<and>
   dummy_merchant_name \<noteq> ascii ''Sample Merchant''"
proof -
  have rid: "ascii ''RCP-'' @ ascii ''20240115-093000'' = ascii ''RCP-20240115-093000''"
    by (simp add: ascii_def)
  have "fst (upload_receipt None png_upload clock_093000 clock_093000 empty_server) =
     Inr \<lparr>receipt_id = ascii ''RCP-20240115-093000'', merchant_name = dummy_merchant_name,
          total_amount = 15000, date = ascii ''2024-01-15'', status = ascii ''processed'',
          message = message_dummy_mode\<rparr>"
    by (simp add: upload_receipt_image [OF example_uploads(3,4)] example_clocks rid)
  then show ?thesis
    by (simp add: dummy_merchant_name_def ascii_def)
qed

text \<open>
  C8, amended: for an upload whose content type starts with \<open>image/\<close> the result
  carries the handler's fixed merchant name, the total 15000.0 and an identifier of the
  form \<open>RCP-YYYYMMDD-HHMMSS\<close>, and no item list. The two fixed items go to the
  database only: when the save succeeded, exactly these two rows were appended, with no
  check against the total.
\<close>

theorem upload_receipt_dummy_data:
  assumes "content_type file = Some ct" and "startswith ct (ascii ''image/'')"
    and "valid_datetime now1"
  shows "\<exists>r s'. upload_receipt db_pool file now1 now2 s = (Inr r, s') \<and>
     merchant_name r = dummy_merchant_name \<and> total_amount r = 15000 \<and>
     rcp_format (receipt_id r) \<and>
     dict_get (ReceiptResponse_json r) (ascii ''items'') = None \<and>
     (message r = message_saved \<longrightarrow>
        receipt_items (db s') = receipt_items (db s) @
          [\<lparr>item_receipt_id = receipt_id r, item_name = americano, item_quantity = 2,
            item_price = 4500\<rparr>,
           \<lparr>item_receipt_id = receipt_id r, item_name = sandwich, item_quantity = 1,
            item_price = 6000\<rparr>])"
proof -
  from upload_receipt_image_result [OF assms(1,2), of db_pool now1 now2 s]
  obtain r s' where r: "upload_receipt db_pool file now1 now2 s = (Inr r, s')"
    "receipt_id r = ascii ''RCP-'' @ strftime_compact now1"
    "merchant_name r = dummy_merchant_name" "total_amount r = 15000"
    "(message r = message_saved) =
       (db_pool \<noteq> None \<and>
        \<not> isl (fst (save_receipt (receipt_id r) dummy_merchant_name 15000 (date_of now2) s)))"
    "db_pool \<noteq> None \<longrightarrow>
        s' = snd (save_receipt (receipt_id r) dummy_merchant_name 15000 (date_of now2) s)"
    by blast
  have no_items: "dict_get (ReceiptResponse_json r) (ascii ''items'') = None"
    by (simp add: ReceiptResponse_json_def ascii_def)
  have stored: "receipt_items (db s') = receipt_items (db s) @
          [\<lparr>item_receipt_id = receipt_id r, item_name = americano, item_quantity = 2,
            item_price = 4500\<rparr>,
           \<lparr>item_receipt_id = receipt_id r, item_name = sandwich, item_quantity = 1,
            item_price = 6000\<rparr>]" if saved: "message r = message_saved"
  proof -
    obtain res s1 where
      sv: "save_receipt (receipt_id r) dummy_merchant_name 15000 (date_of now2) s = (res, s1)"
      by (cases "save_receipt (receipt_id r) dummy_merchant_name 15000 (date_of now2) s")
    from saved r(5) sv have pool: "db_pool \<noteq> None" and "\<not> isl res" by auto
    then obtain u where "res = Inr u" by (cases res) auto
    with sv r(6) pool have
      "save_receipt (receipt_id r) dummy_merchant_name 15000 (date_of now2) s = (Inr u, s')"
      by simp
    from save_receipt_Inr(3) [OF this] show ?thesis
      by (simp add: item_rows_of_def items_def)
  qed
  from r(1,2,3,4) rcp_format_strftime [OF assms(3)] no_items stored show ?thesis by simp
qed

theorem upload_receipt_dummy_data_witness:
  "content_type jpeg_upload = Some (ascii ''image/jpeg'') \<and>
   startswith (ascii ''image/jpeg'') (ascii ''image/'') \<and> valid_datetime clock_093000 \<and>
   (\<exists>r s'. upload_receipt (Some Pool) jpeg_upload clock_093000 clock_093000_later empty_server =
       (Inr r, s') \<and>
     merchant_name r = dummy_merchant_name \<and> total_amount r = 15000 \<and>
     rcp_format (receipt_id r) \<and> message r = message_saved \<and>
     receipt_items (db s') =
          [\<lparr>item_receipt_id = receipt_id r, item_name = americano, item_quantity = 2,
            item_price = 4500\<rparr>,
           \<lparr>item_receipt_id = receipt_id r, item_name = sandwich, item_quantity = 1,
            item_price = 6000\<rparr>])"
proof -
  from upload_receipt_dummy_data [OF example_uploads(1,2) example_clocks(4),
      of "Some Pool" clock_093000_later empty_server]
  obtain r s' where r:
    "upload_receipt (Some Pool) jpeg_upload clock_093000 clock_093000_later empty_server = (Inr r, s')"
    "merchant_name r = dummy_merchant_name" "total_amount r = 15000"
    "rcp_format (receipt_id r)"
    "message r = message_saved \<longrightarrow>
        receipt_items (db s') = receipt_items (db empty_server) @
          [\<lparr>item_receipt_id = receipt_id r, item_name = americano, item_quantity = 2,
            item_price = 4500\<rparr>,
           \<lparr>item_receipt_id = receipt_id r, item_name = sandwich, item_quantity = 1,
            item_price = 6000\<rparr>]"
    by blast
  have m: "message r = message_saved"
    using r(1)
    by (auto simp add: upload_receipt_image [OF example_uploads(1,2)] save_receipt_empty_server)
  have e: "receipt_items (db empty_server) = []" by (simp add: empty_server_def)
  from r m e example_uploads(1,2) example_clocks(4) show ?thesis by auto
qed

subsection \<open>Storing and retrieving\<close>

text \<open>
  C2. When an upload has stored its receipt (the response carries the "saved" message), a
  later \<open>get_receipt\<close> of the returned identifier, on the same tables and with no fault
  in its three database operations, returns the identifier, merchant name, total amount,
  date and status of the upload's response and exactly the two items written, in the order
  of their insertion; the read leaves the tables as they were.
\<close>

theorem upload_then_get_receipt:
  assumes "consistent (db s)"
    and "upload_receipt (Some p) file now1 now2 s = (Inr r, s1)"
    and "message r = message_saved"
    and "db s2 = db s1" and "fault_free 3 s2"
  shows "get_receipt (Some p') (receipt_id r) now s2 =
     (Inr (JObj
        [(ascii ''receipt_id'', JStr (receipt_id r)),
         (ascii ''merchant_name'', JStr (merchant_name r)),
         (ascii ''total_amount'', JFloat (total_amount r)),
         (ascii ''date'', JStr (date r)),
         (ascii ''status'', JStr (ReceiptResponse.status r)),
         (ascii ''items'', JList
            [JObj [(ascii ''name'', JStr americano), (ascii ''quantity'', JInt 2),
                   (ascii ''price'', JFloat 4500)],
             JObj [(ascii ''name'', JStr sandwich), (ascii ''quantity'', JInt 1),
                   (ascii ''price'', JFloat 6000)]])]),
      s2\<lparr>faults := drop 3 (faults s2)\<rparr>)"
proof -
  from assms(2) have "fst (upload_receipt (Some p) file now1 now2 s) = Inr r" by simp
  from upload_receipt_Inr_image [OF this] obtain ct where
    ct: "content_type file = Some ct" "startswith ct (ascii ''image/'')" by blast
  let ?rid = "ascii ''RCP-'' @ strftime_compact now1"
  let ?row = "\<lparr>col_receipt_id = ?rid, col_merchant_name = dummy_merchant_name,
      col_total_amount = 15000, col_receipt_date = date_of now2,
      col_image_url = ascii ''s3://receipts/'' @ ?rid @ ascii ''.jpg'',
      col_status = ascii ''processed''\<rparr>"
  obtain res s' where sv: "save_receipt ?rid dummy_merchant_name 15000 (date_of now2) s = (res, s')"
    by (cases "save_receipt ?rid dummy_merchant_name 15000 (date_of now2) s")
  from assms(2,3) sv messages_distinct have
    r: "r = \<lparr>receipt_id = ?rid, merchant_name = dummy_merchant_name, total_amount = 15000,
            date = date_isoformat (date_of now2), status = ascii ''processed'',
            message = message_saved\<rparr>"
    and res: "\<not> isl res" and s1: "s1 = s'"
    by (auto simp add: upload_receipt_image [OF ct] split: sum.splits)
  from res obtain u where "res = Inr u" by (cases res) auto
  with sv s1 have sv': "save_receipt ?rid dummy_merchant_name 15000 (date_of now2) s = (Inr u, s1)"
    by simp
  note S = save_receipt_Inr [OF sv']
  from S(3) assms(4) have
    recs: "receipts (db s2) = receipts (db s) @ [?row]" and
    its: "receipt_items (db s2) = receipt_items (db s) @ item_rows_of ?rid items"
    by simp_all
  have f: "find (\<lambda>r. col_receipt_id r = ?rid) (receipts (db s2)) = Some ?row"
    unfolding recs by (rule find_appended_row [OF S(2)]) simp
  have g: "filter (\<lambda>i. item_receipt_id i = ?rid) (receipt_items (db s2)) = item_rows_of ?rid items"
    unfolding its by (simp add: filter_items_absent [OF assms(1) S(2)] filter_item_rows_of)
  have "query_receipt ?rid s2 =
      (Inr (receipt_json ?row (item_rows_of ?rid items)), s2\<lparr>faults := drop 3 (faults s2)\<rparr>)"
    by (simp add: query_receipt_fault_free [OF assms(5)] f g)
  then show ?thesis
    by (simp add: get_receipt_def r receipt_json_def item_json_def item_rows_of_def items_def)
qed

theorem upload_then_get_receipt_witness:
  "consistent (db empty_server) \<and>
   upload_receipt (Some Pool) jpeg_upload clock_093000 clock_093000_later empty_server =
     (Inr \<lparr>receipt_id = ascii ''RCP-20240115-093000'', merchant_name = dummy_merchant_name,
           total_amount = 15000, date = ascii ''2024-01-15'', status = ascii ''processed'',
           message = message_saved\<rparr>,
      stored_once (ascii ''RCP-20240115-093000'') (date_of clock_093000_later)) \<and>
   fault_free 3 (stored_once (ascii ''RCP-20240115-093000'') (date_of clock_093000_later)) \<and>
   fst (get_receipt (Some Pool) (ascii ''RCP-20240115-093000'') clock_093001
      (stored_once (ascii ''RCP-20240115-093000'') (date_of clock_093000_later))) =
     Inr (JObj
        [(ascii ''receipt_id'', JStr (ascii ''RCP-20240115-093000'')),
         (ascii ''merchant_name'', JStr dummy_merchant_name),
         (ascii ''total_amount'', JFloat 15000),
         (ascii ''date'', JStr (ascii ''2024-01-15'')),
         (ascii ''status'', JStr (ascii ''processed'')),
         (ascii ''items'', JList
            [JObj [(ascii ''name'', JStr americano), (ascii ''quantity'', JInt 2),
                   (ascii ''price'', JFloat 4500)],
             JObj [(ascii ''name'', JStr sandwich), (ascii ''quantity'', JInt 1),
                   (ascii ''price'', JFloat 6000)]])])"
proof -
  have rid: "ascii ''RCP-'' @ ascii ''20240115-093000'' = ascii ''RCP-20240115-093000''"
    by (simp add: ascii_def)
  have c: "consistent (db empty_server)"
    by (simp add: consistent_def empty_server_def)
  have u: "upload_receipt (Some Pool) jpeg_upload clock_093000 clock_093000_later empty_server =
     (Inr \<lparr>receipt_id = ascii ''RCP-20240115-093000'', merchant_name = dummy_merchant_name,
           total_amount = 15000, date = ascii ''2024-01-15'', status = ascii ''processed'',
           message = message_saved\<rparr>,
      stored_once (ascii ''RCP-20240115-093000'') (date_of clock_093000_later))"
    by (simp add: upload_receipt_image [OF example_uploads(1,2)] example_clocks rid
        save_receipt_empty_server)
  have m: "message \<lparr>receipt_id = ascii ''RCP-20240115-093000'', merchant_name = dummy_merchant_name,
           total_amount = 15000, date = ascii ''2024-01-15'', status = ascii ''processed'',
           message = message_saved\<rparr> = message_saved" by simp
  have f: "fault_free 3 (stored_once (ascii ''RCP-20240115-093000'') (date_of clock_093000_later))"
    by (simp add: fault_free_def stored_once_def)
  from c u f upload_then_get_receipt [OF c u m refl f, of Pool clock_093001]
  show ?thesis by simp
qed

subsection \<open>A failing item insert\<close>

text \<open>
  C1, as claimed: the receipt insert and the item inserts commit together or not at all, so
  that after a failing item insert the receipt is not found. The handler runs each
  \<open>INSERT\<close> as a statement of its own, outside any transaction: when the first item
  insert fails, the receipt row stays and \<open>get_receipt\<close> returns it with no items.
\<close>

theorem receipt_without_items_is_observable:
  "upload_receipt (Some Pool) jpeg_upload clock_093000 clock_093000_later item_fault_server =
     (Inr \<lparr>receipt_id = ascii ''RCP-20240115-093000'', merchant_name = dummy_merchant_name,
           total_amount = 15000, date = ascii ''2024-01-15'', status = ascii ''processed'',
           message = message_save_failed\<rparr>,
      receipt_only (ascii ''RCP-20240115-093000'') (date_of clock_093000_later)) \<and>
   fst (get_receipt (Some Pool) (ascii ''RCP-20240115-093000'') clock_093001
      (receipt_only (ascii ''RCP-20240115-093000'') (date_of clock_093000_later))) =
     Inr (JObj
        [(ascii ''receipt_id'', JStr (ascii ''RCP-20240115-093000'')),
         (ascii ''merchant_name'', JStr dummy_merchant_name),
         (ascii ''total_amount'', JFloat 15000),
         (ascii ''date'', JStr (ascii ''2024-01-15'')),
         (ascii ''status'', JStr (ascii ''processed'')),
         (ascii ''items'', JList [])]) \<and>
   fst (get_receipt (Some Pool) (ascii ''RCP-20240115-093000'') clock_093001
      (receipt_only (ascii ''RCP-20240115-093000'') (date_of clock_093000_later))) \<noteq>
     Inl (HTTPException 404 detail_not_found)"
proof -
  have rid: "ascii ''RCP-'' @ ascii ''20240115-093000'' = ascii ''RCP-20240115-093000''"
    by (simp add: ascii_def)
  have sv: "save_receipt (ascii ''RCP-20240115-093000'') dummy_merchant_name 15000
       (date_of clock_093000_later) item_fault_server =
     (Inl (DBException (ascii ''connection lost'')),
      receipt_only (ascii ''RCP-20240115-093000'') (date_of clock_093000_later))"
    by (simp add: save_receipt_def acquire_def insert_receipt_def insert_receipt_item_def
      db_op_def has_receipt_def item_fault_server_def items_def receipt_only_def
      receipt_row_of_def)
  have u: "upload_receipt (Some Pool) jpeg_upload clock_093000 clock_093000_later item_fault_server =
     (Inr \<lparr>receipt_id = ascii ''RCP-20240115-093000'', merchant_name = dummy_merchant_name,
           total_amount = 15000, date = ascii ''2024-01-15'', status = ascii ''processed'',
           message = message_save_failed\<rparr>,
      receipt_only (ascii ''RCP-20240115-093000'') (date_of clock_093000_later))"
    by (simp add: upload_receipt_image [OF example_uploads(1,2)] example_clocks rid sv)
  have ff: "fault_free 3 (receipt_only (ascii ''RCP-20240115-093000'') (date_of clock_093000_later))"
    by (simp add: fault_free_def receipt_only_def)
  have q: "query_receipt (ascii ''RCP-20240115-093000'')
      (receipt_only (ascii ''RCP-20240115-093000'') (date_of clock_093000_later)) =
     (Inr (receipt_json (receipt_row_of (ascii ''RCP-20240115-093000'') (date_of clock_093000_later)) []),
      receipt_only (ascii ''RCP-20240115-093000'') (date_of clock_093000_later))"
    by (simp add: query_receipt_fault_free [OF ff]) (simp add: receipt_only_def receipt_row_of_def)
  have g: "fst (get_receipt (Some Pool) (ascii ''RCP-20240115-093000'') clock_093001
      (receipt_only (ascii ''RCP-20240115-093000'') (date_of clock_093000_later))) =
     Inr (JObj
        [(ascii ''receipt_id'', JStr (ascii ''RCP-20240115-093000'')),
         (ascii ''merchant_name'', JStr dummy_merchant_name),
         (ascii ''total_amount'', JFloat 15000),
         (ascii ''date'', JStr (ascii ''2024-01-15'')),
         (ascii ''status'', JStr (ascii ''processed'')),
         (ascii ''items'', JList [])])"
    by (simp add: get_receipt_def q receipt_json_def receipt_row_of_def example_clocks)
  from u g show ?thesis by simp
qed

text \<open>
  C1, amended: every \<open>INSERT\<close> of the upload is committed on its own. When the
  receipt insert succeeded and the insert of item number \<open>k\<close> (counted from 0) raises,
  the upload still answers with a response, carrying the "save failed" message; the receipt
  row and the \<open>k\<close> items inserted before persist, and a later \<open>get_receipt\<close> of the
  identifier (same tables, no fault) returns the receipt with exactly those \<open>k\<close> items.
\<close>

theorem item_insert_failure_keeps_receipt:
  assumes "content_type file = Some ct" and "startswith ct (ascii ''image/'')"
    and "consistent (db s)"
    and "\<not> has_receipt (db s) (ascii ''RCP-'' @ strftime_compact now1)"
    and "faults s = None # None # replicate k None @ Some msg # fs" and "k < length items"
    and "db s2 = db (snd (upload_receipt (Some p) file now1 now2 s))" and "fault_free 3 s2"
  shows "\<exists>r. fst (upload_receipt (Some p) file now1 now2 s) = Inr r \<and>
      receipt_id r = ascii ''RCP-'' @ strftime_compact now1 \<and>
      message r = message_save_failed \<and>
      has_receipt (db s2) (receipt_id r) \<and>
      fst (get_receipt (Some p') (receipt_id r) now s2) =
        Inr (receipt_json (receipt_row_of (receipt_id r) (date_of now2))
               (take k (item_rows_of (receipt_id r) items)))"
proof -
  let ?rid = "ascii ''RCP-'' @ strftime_compact now1"
  let ?r = "\<lparr>receipt_id = ?rid, merchant_name = dummy_merchant_name, total_amount = 15000,
            date = date_isoformat (date_of now2), status = ascii ''processed'',
            message = message_save_failed\<rparr>"
  note sv = save_receipt_item_fault [OF assms(4,5,6), of dummy_merchant_name 15000 "date_of now2"]
  have u: "upload_receipt (Some p) file now1 now2 s =
    (Inr ?r,
     s\<lparr>db := (db s)\<lparr>receipts := receipts (db s) @ [receipt_row_of ?rid (date_of now2)],
                 receipt_items := receipt_items (db s) @ take k (item_rows_of ?rid items)\<rparr>,
        faults := fs\<rparr>)"
    by (simp add: upload_receipt_image [OF assms(1,2)] sv receipt_row_of_def)
  with assms(7) have
    recs: "receipts (db s2) = receipts (db s) @ [receipt_row_of ?rid (date_of now2)]" and
    its: "receipt_items (db s2) = receipt_items (db s) @ take k (item_rows_of ?rid items)"
    by simp_all
  have f: "find (\<lambda>r. col_receipt_id r = ?rid) (receipts (db s2)) =
       Some (receipt_row_of ?rid (date_of now2))"
    unfolding recs by (rule find_appended_row [OF assms(4)]) (simp add: receipt_row_of_def)
  have "filter (\<lambda>i. item_receipt_id i = ?rid) (take k (item_rows_of ?rid items)) =
      take k (item_rows_of ?rid items)"
    by (rule filter_True) (auto simp add: item_rows_of_def dest!: in_set_takeD)
  then have g: "filter (\<lambda>i. item_receipt_id i = ?rid) (receipt_items (db s2)) =
      take k (item_rows_of ?rid items)"
    unfolding its by (simp add: filter_items_absent [OF assms(3,4)])
  have h: "has_receipt (db s2) ?rid"
    by (simp add: has_receipt_def recs receipt_row_of_def)
  have "fst (query_receipt ?rid s2) =
      Inr (receipt_json (receipt_row_of ?rid (date_of now2)) (take k (item_rows_of ?rid items)))"
    by (simp add: query_receipt_fault_free [OF assms(8)] f g)
  then have "fst (get_receipt (Some p') ?rid now s2) =
      Inr (receipt_json (receipt_row_of ?rid (date_of now2)) (take k (item_rows_of ?rid items)))"
    by (cases "query_receipt ?rid s2") (simp add: get_receipt_def)
  with u h show ?thesis by simp
qed

theorem item_insert_failure_keeps_receipt_witness:
  "consistent (db item_fault_server) \<and>
   \<not> has_receipt (db item_fault_server) (ascii ''RCP-'' @ strftime_compact clock_093000) \<and>
   faults item_fault_server = None # None # replicate 0 None @ Some (ascii ''connection lost'') # [] \<and>
   (\<exists>r. fst (upload_receipt (Some Pool) jpeg_upload clock_093000 clock_093000_later
               item_fault_server) = Inr r \<and>
      receipt_id r = ascii ''RCP-20240115-093000'' \<and>
      message r = message_save_failed \<and>
      fst (get_receipt (Some Pool) (receipt_id r) clock_093001
             (snd (upload_receipt (Some Pool) jpeg_upload clock_093000 clock_093000_later
                     item_fault_server))) =
        Inr (receipt_json (receipt_row_of (receipt_id r) (date_of clock_093000_later)) []))"
proof -
  have rid: "ascii ''RCP-'' @ ascii ''20240115-093000'' = ascii ''RCP-20240115-093000''"
    by (simp add: ascii_def)
  have c: "consistent (db item_fault_server)"
    by (simp add: consistent_def item_fault_server_def)
  have n: "\<not> has_receipt (db item_fault_server) (ascii ''RCP-'' @ strftime_compact clock_093000)"
    by (simp add: has_receipt_def item_fault_server_def)
  have fl: "faults item_fault_server =
      None # None # replicate 0 None @ Some (ascii ''connection lost'') # []"
    by (simp add: item_fault_server_def)
  have k: "0 < length items" by (simp add: items_def)
  have ff: "fault_free 3 (snd (upload_receipt (Some Pool) jpeg_upload clock_093000
      clock_093000_later item_fault_server))"
    by (simp add: upload_receipt_image [OF example_uploads(1,2)]
        save_receipt_item_fault [OF n fl k] fault_free_def)
  from c n fl
    item_insert_failure_keeps_receipt [OF example_uploads(1,2) c n fl k refl ff, of Pool clock_093001]
  show ?thesis by (auto simp add: example_clocks rid)
qed

end
